theory Spec2Isabelle
  imports Complex_Main
begin

section \<open>JavaScript values used by the routes\<close>

text \<open>
  The routes compute with JavaScript numbers that hold counts, page numbers, limits and
  offsets. A number is modelled as a mathematical integer, or \<open>NaN\<close> where
  \<open>parseInt\<close> can produce it. The double arithmetic the routes use (subtraction,
  multiplication by ten, division by ten followed by \<open>Math.ceil\<close>, decimal printing
  and parsing) agrees with integer arithmetic on the safe integers, so the theorems
  whose statements rest on that arithmetic assume \<open>isSafeInteger\<close>.

  A string is a list of characters; a character stands for one UTF-16 code unit below 256.
\<close>

datatype jsnumber = NaN | Num int

definition MAX_SAFE_INTEGER :: int where
  "MAX_SAFE_INTEGER = 9007199254740991"

definition isSafeInteger :: "int \<Rightarrow> bool" where
  "isSafeInteger n = (- MAX_SAFE_INTEGER \<le> n \<and> n \<le> MAX_SAFE_INTEGER)"

text \<open>\<open>x || d\<close> on a number \<open>x\<close>: \<open>NaN\<close> and zero are falsy.\<close>

fun orElse :: "jsnumber \<Rightarrow> int \<Rightarrow> int" where
  "orElse NaN d = d"
| "orElse (Num n) d = (if n = 0 then d else n)"

subsection \<open>\<open>Number.prototype.toString\<close> on integers\<close>

text \<open>
  The plain decimal digits, with a minus sign for a negative number. This is what the
  language prints for a safe integer. Beyond the safe integers a number is a rounded double,
  printed with the fewest digits that identify it, and in exponent form from \<open>1e21\<close> on:
  there \<open>toString\<close> below does not follow the language, and no statement below uses it
  there.
\<close>

definition digitChar :: "nat \<Rightarrow> char" where
  "digitChar d =
     (if d = 0 then CHR ''0'' else if d = 1 then CHR ''1'' else if d = 2 then CHR ''2''
      else if d = 3 then CHR ''3'' else if d = 4 then CHR ''4'' else if d = 5 then CHR ''5''
      else if d = 6 then CHR ''6'' else if d = 7 then CHR ''7'' else if d = 8 then CHR ''8''
      else CHR ''9'')"

fun digits :: "nat \<Rightarrow> string" where
  "digits n = (if n < 10 then [digitChar n] else digits (n div 10) @ [digitChar (n mod 10)])"

declare digits.simps [simp del]

definition toString :: "int \<Rightarrow> string" where
  "toString n = (if n < 0 then CHR ''-'' # digits (nat (- n)) else digits (nat n))"

subsection \<open>\<open>parseInt\<close> with the radix left out\<close>

text \<open>
  The steps of the language definition: skip leading white space, read a sign, switch to
  radix 16 after a \<open>0x\<close> or \<open>0X\<close> prefix, take the longest run of digits of the
  radix, and answer \<open>NaN\<close> when that run is empty. Whatever follows the run is ignored.

  The answer \<open>NaN\<close> and the answer zero are those of the language for every string. Another
  answer \<open>Num n\<close> is the integer the run spells; the language rounds it to a double, which
  is \<open>n\<close> itself when \<open>n\<close> is a safe integer. The statements below use a nonzero answer
  only under \<open>isSafeInteger\<close>.
\<close>

definition isWhiteSpace :: "char \<Rightarrow> bool" where
  "isWhiteSpace c = (c \<in> set [CHR 0x09, CHR 0x0A, CHR 0x0B, CHR 0x0C, CHR 0x0D, CHR 0x20, CHR 0xA0])"

definition digitValue :: "char \<Rightarrow> nat option" where
  "digitValue c =
     (let k = (of_char c :: nat) in
      if 48 \<le> k \<and> k \<le> 57 then Some (k - 48)
      else if 97 \<le> k \<and> k \<le> 122 then Some (k - 87)
      else if 65 \<le> k \<and> k \<le> 90 then Some (k - 55)
      else None)"

definition isRadixDigit :: "nat \<Rightarrow> char \<Rightarrow> bool" where
  "isRadixDigit R c = (case digitValue c of Some v \<Rightarrow> v < R | None \<Rightarrow> False)"

definition radixValue :: "nat \<Rightarrow> string \<Rightarrow> nat" where
  "radixValue R Z = foldl (\<lambda>a c. a * R + (case digitValue c of Some v \<Rightarrow> v | None \<Rightarrow> 0)) 0 Z"

definition parseInt :: "string \<Rightarrow> jsnumber" where
  "parseInt inputString =
     (let S = dropWhile isWhiteSpace inputString;
          sign = (if S \<noteq> [] \<and> hd S = CHR ''-'' then - 1 else (1 :: int));
          S1 = (if S \<noteq> [] \<and> (hd S = CHR ''+'' \<or> hd S = CHR ''-'') then tl S else S);
          stripPrefix = (take 2 S1 = ''0x'' \<or> take 2 S1 = ''0X'');
          R = (if stripPrefix then 16 else 10);
          S2 = (if stripPrefix then drop 2 S1 else S1);
          Z = takeWhile (isRadixDigit R) S2
      in if Z = [] then NaN else Num (sign * int (radixValue R Z)))"

section \<open>Collaborators of the routes\<close>

text \<open>A value that a rejected promise carries: an \<open>Error\<close> with its message, or anything else.\<close>

datatype thrown = ErrorInstance string | OtherValue

datatype 'a outcome = Resolved 'a | Rejected thrown

text \<open>
  Modelled from the spec: the type \<open>QueryData\<close> of \<open>@/db/execute-query\<close>, which is not
  among the sources. A query result carries an error flag: rows when the flag is off, a
  message when it is on. \<open>executeQuery\<close> itself is a parameter of the routes below: a
  function from the statement and its positional string parameters to the outcome of the
  promise it returns.
\<close>

datatype 'a QueryData = QueryOk 'a | QueryFailed string

text \<open>A JSON object that is either \<open>{error: string}\<close> or a query result.\<close>

datatype 'a payload = ErrorObject string | QueryObject "'a QueryData"

record OrganizationData =
  organization_id :: int
  organization_name :: string
  industry :: string
  address :: string
  phone :: string
  email :: string
  subscription_tier :: string
  created_at :: string

record OrganizationCountData =
  total :: int

definition organizationsQuery :: string where
  "organizationsQuery =
     [CHR 0x0A] @ ''  SELECT organization_id, organization_name, industry, address, phone, email, subscription_tier, created_at'' @
     [CHR 0x0A] @ ''  FROM organizations'' @
     [CHR 0x0A] @ ''  ORDER BY organization_name'' @
     [CHR 0x0A] @ ''  LIMIT $1 OFFSET $2'' @
     [CHR 0x0A]"

definition organizationsCountQuery :: string where
  "organizationsCountQuery =
     [CHR 0x0A] @ ''  SELECT COUNT(*) as total FROM organizations'' @ [CHR 0x0A]"

definition ITEMS_PER_PAGE :: int where
  "ITEMS_PER_PAGE = 10"

type_synonym 'a executor = "string \<Rightarrow> string list option \<Rightarrow> 'a QueryData outcome"

section \<open>The resource action (resources.organizations.ts)\<close>

datatype formDataEntryValue = StringValue string | FileValue

type_synonym formData = "(string \<times> formDataEntryValue) list"

text \<open>\<open>FormData.get\<close>: the first value under the name, \<open>null\<close> when there is none.\<close>

definition formDataGet :: "formData \<Rightarrow> string \<Rightarrow> formDataEntryValue option" where
  "formDataGet fd name = map_of fd name"

text \<open>The conversion \<open>parseInt\<close> applies to its argument before reading it.\<close>

fun coerceToString :: "formDataEntryValue option \<Rightarrow> string" where
  "coerceToString None = ''null''"
| "coerceToString (Some (StringValue s)) = s"
| "coerceToString (Some FileValue) = ''[object File]''"

text \<open>
  Of a request the action reads \<open>request.method\<close> and awaits \<open>request.formData()\<close>,
  which rejects when the body is not form data.
\<close>

record request =
  requestMethod :: string
  requestFormData :: "formData outcome"

record response =
  status :: nat
  body :: "OrganizationData list payload"

definition Response_json :: "OrganizationData list payload \<Rightarrow> nat \<Rightarrow> response" where
  "Response_json data st = \<lparr>status = st, body = data\<rparr>"

text \<open>
  What one call of the action does: the response it returns, the statements it ran with
  their parameters, and what it wrote with \<open>console.error\<close>.
\<close>

record actionResult =
  returned :: response
  executed :: "(string \<times> string list option) list"
  logged :: "(string \<times> thrown) list"

definition actionLimit :: "formData \<Rightarrow> int" where
  "actionLimit fd = orElse (parseInt (coerceToString (formDataGet fd ''limit''))) 10"

definition actionOffset :: "formData \<Rightarrow> int" where
  "actionOffset fd = orElse (parseInt (coerceToString (formDataGet fd ''offset''))) 0"

definition action :: "OrganizationData list executor \<Rightarrow> request \<Rightarrow> actionResult" where
  "action executeQuery req =
     (if requestMethod req \<noteq> ''POST'' then
        \<lparr>returned = Response_json (ErrorObject ''Method not allowed'') 405,
         executed = [], logged = []\<rparr>
      else
        (case requestFormData req of
           Rejected error \<Rightarrow>
             \<lparr>returned = Response_json (ErrorObject ''Failed to fetch organizations'') 500,
              executed = [], logged = [(''Error fetching organizations:'', error)]\<rparr>
         | Resolved fd \<Rightarrow>
             (let limit = actionLimit fd;
                  offset = actionOffset fd;
                  params = [toString limit, toString offset]
              in case executeQuery organizationsQuery (Some params) of
                   Rejected error \<Rightarrow>
                     \<lparr>returned = Response_json (ErrorObject ''Failed to fetch organizations'') 500,
                      executed = [(organizationsQuery, Some params)],
                      logged = [(''Error fetching organizations:'', error)]\<rparr>
                 | Resolved organizations \<Rightarrow>
                     (case organizations of
                        QueryFailed message \<Rightarrow>
                          \<lparr>returned = Response_json (QueryObject organizations) 200,
                           executed = [(organizationsQuery, Some params)], logged = []\<rparr>
                      | QueryOk rows \<Rightarrow>
                          \<lparr>returned = Response_json (QueryObject (QueryOk rows)) 200,
                           executed = [(organizationsQuery, Some params)], logged = []\<rparr>))))"

section \<open>The organizations route (organizations.tsx)\<close>

subsection \<open>The loader\<close>

text \<open>
  The loader's result is one of two object shapes, which the page tells apart with
  \<open>'error' in loaderData\<close>.
\<close>

datatype loaderData =
  LoaderSuccess "OrganizationData list QueryData" "OrganizationCountData list QueryData"
| LoaderError string

fun fieldNames :: "loaderData \<Rightarrow> string list" where
  "fieldNames (LoaderSuccess qo qc) = [''organizations'', ''organizationsCount'']"
| "fieldNames (LoaderError message) = [''error'']"

definition hasField :: "string \<Rightarrow> loaderData \<Rightarrow> bool" where
  "hasField name obj = (name \<in> set (fieldNames obj))"

text \<open>
  \<open>Promise.all\<close> on two promises: it resolves with both values, and rejects with the
  value of the promise that rejects first. When both reject, which one was first is a
  matter of timing: the flag says whether it was the second.
\<close>

definition promiseAll :: "bool \<Rightarrow> 'a outcome \<Rightarrow> 'b outcome \<Rightarrow> ('a \<times> 'b) outcome" where
  "promiseAll secondRejectsFirst p q =
     (case p of
        Resolved x \<Rightarrow> (case q of Resolved y \<Rightarrow> Resolved (x, y) | Rejected e \<Rightarrow> Rejected e)
      | Rejected e1 \<Rightarrow>
          (case q of
             Resolved y \<Rightarrow> Rejected e1
           | Rejected e2 \<Rightarrow> Rejected (if secondRejectsFirst then e2 else e1)))"

record loaderResult =
  loaded :: loaderData
  loaderLogged :: "(string \<times> thrown) list"

definition loader ::
  "bool \<Rightarrow> OrganizationData list executor \<Rightarrow> OrganizationCountData list executor \<Rightarrow> loaderResult" where
  "loader countRejectsFirst executeQuery executeCountQuery =
     (case promiseAll countRejectsFirst
             (executeQuery organizationsQuery (Some [toString ITEMS_PER_PAGE, ''0'']))
             (executeCountQuery organizationsCountQuery None) of
        Resolved (organizations, organizationsCount) \<Rightarrow>
          \<lparr>loaded = LoaderSuccess organizations organizationsCount, loaderLogged = []\<rparr>
      | Rejected error \<Rightarrow>
          \<lparr>loaded = LoaderError (case error of
                                   ErrorInstance message \<Rightarrow> message
                                 | OtherValue \<Rightarrow> ''Failed to load organizations data''),
           loaderLogged = [(''Error in organizations loader:'', error)]\<rparr>)"

subsection \<open>The table\<close>

record OrganizationsTableProps =
  organizations :: "OrganizationData list"
  organizationsCount :: int
  isLoading :: bool
  currentPage :: int

text \<open>
  What the table shows. The two buttons call \<open>onPageChange\<close> with the targets recorded
  here. A data row shows the fields of its record (the creation time through the locale's
  date format, which is not modelled).
\<close>

datatype tableBody = LoadingRow | EmptyRow | DataRows "OrganizationData list"

record tableView =
  shownPage :: int
  shownTotalPages :: int
  previousDisabled :: bool
  previousTarget :: int
  nextDisabled :: bool
  nextTarget :: int
  tableRows :: tableBody

definition totalPages :: "int \<Rightarrow> int" where
  "totalPages count =
     (if count > 0 then \<lceil>real_of_int count / real_of_int ITEMS_PER_PAGE\<rceil> else 0)"

definition OrganizationsTable :: "OrganizationsTableProps \<Rightarrow> tableView" where
  "OrganizationsTable props =
     \<lparr>shownPage = currentPage props,
      shownTotalPages = totalPages (organizationsCount props),
      previousDisabled = (currentPage props = 1 \<or> isLoading props),
      previousTarget = currentPage props - 1,
      nextDisabled = (currentPage props = totalPages (organizationsCount props) \<or> isLoading props),
      nextTarget = currentPage props + 1,
      tableRows =
        (if isLoading props then LoadingRow
         else if length (organizations props) = 0 then EmptyRow
         else DataRows (organizations props))\<rparr>"

subsection \<open>The page\<close>

text \<open>
  The fetcher of the routing framework, as far as the page uses it: its state, the data of
  the last response, and the submissions made so far. A submission puts it into the state
  \<open>submitting\<close>. When the action has answered, the response becomes its data and the state
  is \<open>loading\<close>: the framework runs the loaders of the page again after every submission
  with the method post, unless the route exports \<open>shouldRevalidate\<close>, and this route
  exports none. When the loader has returned, the fetcher is idle again.
\<close>

datatype fetcherState = Idle | Submitting | Loading

record submission =
  formFields :: "(string \<times> string) list"
  submitMethod :: string
  submitAction :: string

record fetcher =
  state :: fetcherState
  data :: "OrganizationData list payload option"
  submissions :: "submission list"

definition submit :: "submission \<Rightarrow> fetcher \<Rightarrow> fetcher" where
  "submit s f = f\<lparr>state := Submitting, submissions := submissions f @ [s]\<rparr>"

definition receive :: "OrganizationData list payload \<Rightarrow> fetcher \<Rightarrow> fetcher" where
  "receive d f = f\<lparr>state := Loading, data := Some d\<rparr>"

definition settle :: "fetcher \<Rightarrow> fetcher" where
  "settle f = (if state f = Loading then f\<lparr>state := Idle\<rparr> else f)"

text \<open>The hooks of the page: the loader's data, the fetcher and the page number.\<close>

record pageState =
  loaderData :: loaderData
  fetcher :: fetcher
  currentPageState :: int

definition mount :: "loaderData \<Rightarrow> pageState" where
  "mount ld =
     \<lparr>loaderData = ld,
      fetcher = \<lparr>state = Idle, data = None, submissions = []\<rparr>,
      currentPageState = 1\<rparr>"

definition handlePageChange :: "int \<Rightarrow> pageState \<Rightarrow> pageState" where
  "handlePageChange page st =
     (let st1 = st\<lparr>currentPageState := page\<rparr>;
          offset = (page - 1) * ITEMS_PER_PAGE
      in st1\<lparr>fetcher :=
               submit \<lparr>formFields = [(''limit'', toString ITEMS_PER_PAGE), (''offset'', toString offset)],
                       submitMethod = ''post'',
                       submitAction = ''/resources/organizations''\<rparr>
                 (fetcher st1)\<rparr>)"

text \<open>
  Modelled from the spec: the component \<open>WithErrorHandling\<close> of
  \<open>@/components/hoc/error-handling-wrapper\<close>, which is not among the sources. Given an
  error object or a query result with the error flag, it shows the message to the user;
  given rows, it shows what \<open>render\<close> makes of them.
\<close>

datatype 'c wrapped = ErrorDisplay string | Rendered 'c

fun WithErrorHandling :: "'a payload \<Rightarrow> ('a \<Rightarrow> 'c) \<Rightarrow> 'c wrapped" where
  "WithErrorHandling (ErrorObject message) render = ErrorDisplay message"
| "WithErrorHandling (QueryObject (QueryFailed message)) render = ErrorDisplay message"
| "WithErrorHandling (QueryObject (QueryOk d)) render = Rendered (render d)"

text \<open>
  What the page returns: the wrapper alone, or the container with the heading and the
  wrapper. The wrapper's content is \<open>null\<close> or the table element with its props.
\<close>

datatype pageView =
  WrapperOnly "OrganizationsTableProps option wrapped"
| Container string "OrganizationsTableProps option wrapped"

text \<open>
  \<open>loaderData.organizationsCount.data?.[0]?.total\<close>: undefined is \<open>None\<close>. The page
  takes 0 for undefined and for zero.
\<close>

fun firstTotal :: "OrganizationCountData list QueryData \<Rightarrow> int option" where
  "firstTotal (QueryFailed message) = None"
| "firstTotal (QueryOk []) = None"
| "firstTotal (QueryOk (r # rs)) = Some (total r)"

definition countOrZero :: "OrganizationCountData list QueryData \<Rightarrow> int" where
  "countOrZero qc = (case firstTotal qc of None \<Rightarrow> 0 | Some n \<Rightarrow> if n = 0 then 0 else n)"

text \<open>
  The test \<open>'error' in loaderData\<close> is the distinction of the two shapes of the loader's
  result. The constant \<open>organizationsData\<close> of the source is computed and never used: the
  rows of the table are those the wrapper hands to \<open>render\<close>.
\<close>

definition OrganizationsPage :: "pageState \<Rightarrow> pageView" where
  "OrganizationsPage st =
     (case loaderData st of
        LoaderError message \<Rightarrow>
          WrapperOnly
            (WithErrorHandling (ErrorObject message :: OrganizationData list payload) (\<lambda>d. None))
      | LoaderSuccess qo qc \<Rightarrow>
          Container ''Organizations''
            (WithErrorHandling
               (case data (fetcher st) of Some d \<Rightarrow> d | None \<Rightarrow> QueryObject qo)
               (\<lambda>d. Some \<lparr>organizations = d,
                           organizationsCount = countOrZero qc,
                           isLoading = (state (fetcher st) = Submitting),
                           currentPage = currentPageState st\<rparr>)))"

text \<open>
  The life of the page after the first render: the user asks for a page, the response of
  the resource action arrives, or the loader, run again by the framework, returns and
  \<open>useLoaderData\<close> hands its new result to the page.
\<close>

datatype event =
  PageChange int
| ActionReturned "OrganizationData list payload"
| LoaderReturned loaderData

fun step :: "pageState \<Rightarrow> event \<Rightarrow> pageState" where
  "step st (PageChange page) = handlePageChange page st"
| "step st (ActionReturned d) = st\<lparr>fetcher := receive d (fetcher st)\<rparr>"
| "step st (LoaderReturned ld) = st\<lparr>loaderData := ld, fetcher := settle (fetcher st)\<rparr>"

definition run :: "pageState \<Rightarrow> event list \<Rightarrow> pageState" where
  "run st es = foldl step st es"

section \<open>Notions used to state the properties\<close>

text \<open>A string that spells an integer: an optional sign, then decimal digits and nothing else.\<close>

definition integerLiteral :: "string \<Rightarrow> bool" where
  "integerLiteral s =
     (let t = (if s \<noteq> [] \<and> (hd s = CHR ''+'' \<or> hd s = CHR ''-'') then tl s else s)
      in t \<noteq> [] \<and> list_all (\<lambda>c. c \<in> set ''0123456789'') t)"

text \<open>A string that begins with an integer: after white space and an optional sign comes a digit.\<close>

definition leadingInteger :: "string \<Rightarrow> bool" where
  "leadingInteger s =
     (let t = dropWhile isWhiteSpace s;
          u = (if t \<noteq> [] \<and> (hd t = CHR ''+'' \<or> hd t = CHR ''-'') then tl t else t)
      in u \<noteq> [] \<and> hd u \<in> set ''0123456789'')"

text \<open>A query succeeded: its promise resolved, and the result does not carry the error flag.\<close>

fun succeeded :: "'a QueryData outcome \<Rightarrow> bool" where
  "succeeded (Resolved (QueryOk rows)) = True"
| "succeeded (Resolved (QueryFailed message)) = False"
| "succeeded (Rejected e) = False"

fun showsErrorMessage :: "pageView \<Rightarrow> bool" where
  "showsErrorMessage (WrapperOnly (ErrorDisplay message)) = True"
| "showsErrorMessage (WrapperOnly (Rendered content)) = False"
| "showsErrorMessage (Container heading (ErrorDisplay message)) = True"
| "showsErrorMessage (Container heading (Rendered content)) = False"

fun showsTable :: "pageView \<Rightarrow> bool" where
  "showsTable (WrapperOnly w) = False"
| "showsTable (Container heading (ErrorDisplay message)) = False"
| "showsTable (Container heading (Rendered None)) = False"
| "showsTable (Container heading (Rendered (Some props))) = True"

text \<open>The total count that the table on the page was given, when the page shows the table.\<close>

fun shownCount :: "pageView \<Rightarrow> int option" where
  "shownCount (WrapperOnly w) = None"
| "shownCount (Container heading (ErrorDisplay message)) = None"
| "shownCount (Container heading (Rendered None)) = None"
| "shownCount (Container heading (Rendered (Some props))) = Some (organizationsCount props)"

text \<open>The result of the latest run of the loader: the initial one, or the last one returned since.\<close>

fun latestLoaderData :: "loaderData \<Rightarrow> event list \<Rightarrow> loaderData" where
  "latestLoaderData ld [] = ld"
| "latestLoaderData ld (PageChange page # es) = latestLoaderData ld es"
| "latestLoaderData ld (ActionReturned d # es) = latestLoaderData ld es"
| "latestLoaderData ld (LoaderReturned ld' # es) = latestLoaderData ld' es"

fun loaderRuns :: "event list \<Rightarrow> nat" where
  "loaderRuns [] = 0"
| "loaderRuns (PageChange page # es) = loaderRuns es"
| "loaderRuns (ActionReturned d # es) = loaderRuns es"
| "loaderRuns (LoaderReturned ld # es) = Suc (loaderRuns es)"

text \<open>The page as first rendered from what the loader returned.\<close>

definition firstRender ::
  "bool \<Rightarrow> OrganizationData list executor \<Rightarrow> OrganizationCountData list executor \<Rightarrow> pageView" where
  "firstRender countRejectsFirst executeQuery executeCountQuery =
     OrganizationsPage (mount (loaded (loader countRejectsFirst executeQuery executeCountQuery)))"

text \<open>Sample data.\<close>

definition acme :: OrganizationData where
  "acme =
     \<lparr>organization_id = 1, organization_name = ''Acme'', industry = ''Tools'',
      address = ''1 Main St'', phone = ''555-0100'', email = ''info@acme.example'',
      subscription_tier = ''basic'', created_at = ''2024-01-15T00:00:00Z''\<rparr>"

section \<open>Printing and parsing integers\<close>

lemma digitChar_decimal: "digitChar d \<in> set ''0123456789''"
  by (simp add: digitChar_def)

lemma digits_decimal: "c \<in> set (digits n) \<Longrightarrow> c \<in> set ''0123456789''"
proof (induction n rule: digits.induct)
  case (1 n)
  show ?case
  proof (cases "n < 10")
    case True
    with "1.prems" have "c = digitChar n" by (simp add: digits.simps [of n])
    then show ?thesis using digitChar_decimal by simp
  next
    case False
    with "1.prems" have "c \<in> set (digits (n div 10)) \<or> c = digitChar (n mod 10)"
      by (auto simp add: digits.simps [of n])
    then show ?thesis using "1.IH" False digitChar_decimal by auto
  qed
qed

lemma digits_not_Nil: "digits n \<noteq> []"
  by (subst digits.simps) simp

lemma decimal_isRadixDigit: "c \<in> set ''0123456789'' \<Longrightarrow> isRadixDigit 10 c"
  by (auto simp add: isRadixDigit_def digitValue_def)

lemma decimal_digitValue: "d < 10 \<Longrightarrow> digitValue (digitChar d) = Some d"
  by (simp add: digitChar_def digitValue_def)

lemma radixValue_snoc:
  "radixValue R (Z @ [c]) = radixValue R Z * R + (case digitValue c of Some v \<Rightarrow> v | None \<Rightarrow> 0)"
  by (simp add: radixValue_def)

lemma radixValue_digits: "radixValue 10 (digits n) = n"
proof (induction n rule: digits.induct)
  case (1 n)
  show ?case
  proof (cases "n < 10")
    case True
    then show ?thesis
      by (simp add: digits.simps [of n] radixValue_def decimal_digitValue)
  next
    case False
    then have "radixValue 10 (digits n) = radixValue 10 (digits (n div 10)) * 10 + n mod 10"
      by (simp add: digits.simps [of n] radixValue_snoc decimal_digitValue)
    with "1.IH" False show ?thesis by simp
  qed
qed

lemma decimal_plain:
  "c \<in> set ''0123456789'' \<Longrightarrow>
     \<not> isWhiteSpace c \<and> c \<noteq> CHR ''-'' \<and> c \<noteq> CHR ''+'' \<and> c \<noteq> CHR ''x'' \<and> c \<noteq> CHR ''X''"
  by (auto simp add: isWhiteSpace_def)

lemma hd_digits_decimal: "hd (digits n) \<in> set ''0123456789''"
  using digits_decimal [of "hd (digits n)" n] digits_not_Nil [of n] by simp

lemma take2_digits: "take 2 (digits n) \<noteq> [a, CHR ''x''] \<and> take 2 (digits n) \<noteq> [a, CHR ''X'']"
proof -
  have "\<And>b. take 2 (digits n) = [a, b] \<Longrightarrow> b \<in> set ''0123456789''"
  proof -
    fix b assume t: "take 2 (digits n) = [a, b]"
    have "b \<in> set (take 2 (digits n))" by (simp add: t)
    then have "b \<in> set (digits n)" by (rule in_set_takeD)
    then show "b \<in> set ''0123456789''" by (rule digits_decimal)
  qed
  then show ?thesis using decimal_plain by blast
qed

lemma parseInt_digits: "parseInt (digits n) = Num (int n)"
proof -
  have h: "\<not> isWhiteSpace (hd (digits n))" "hd (digits n) \<noteq> CHR ''-''" "hd (digits n) \<noteq> CHR ''+''"
    using decimal_plain [OF hd_digits_decimal [of n]] by simp_all
  have d: "dropWhile isWhiteSpace (digits n) = digits n"
    using h(1) digits_not_Nil [of n] by (cases "digits n") simp_all
  have t: "takeWhile (isRadixDigit 10) (digits n) = digits n"
    using digits_decimal decimal_isRadixDigit by simp
  show ?thesis
    using h(2,3) take2_digits [of n "CHR ''0''"] digits_not_Nil [of n]
    by (simp add: parseInt_def d t radixValue_digits Let_def)
qed

lemma parseInt_minus_digits: "parseInt (CHR ''-'' # digits n) = Num (- int n)"
proof -
  have t: "takeWhile (isRadixDigit 10) (digits n) = digits n"
    using digits_decimal decimal_isRadixDigit by simp
  have w: "\<not> isWhiteSpace CHR ''-''" by (simp add: isWhiteSpace_def)
  show ?thesis
    using take2_digits [of n "CHR ''0''"] digits_not_Nil [of n] w
    by (simp add: parseInt_def t radixValue_digits Let_def)
qed

lemma parseInt_toString: "parseInt (toString n) = Num n"
  by (simp add: toString_def parseInt_digits parseInt_minus_digits)

lemma isRadixDigit_decimal: "isRadixDigit 10 c \<Longrightarrow> c \<in> set ''0123456789''"
proof -
  assume a: "isRadixDigit 10 c"
  define k where "k = (of_char c :: nat)"
  from a have "48 \<le> k \<and> k \<le> 57"
    by (auto simp add: isRadixDigit_def digitValue_def Let_def k_def split: if_splits)
  then have "\<exists>d \<in> set ''0123456789''. (of_char d :: nat) = k"
    by (simp, arith)
  then obtain d where d: "d \<in> set ''0123456789''" and "(of_char d :: nat) = of_char c"
    unfolding k_def by blast
  then have "d = c" by (simp only: of_char_eq_iff)
  with d show ?thesis by simp
qed

lemma takeWhile_hd_Nil: "u = [] \<or> \<not> P (hd u) \<Longrightarrow> takeWhile P u = []"
  by (cases u) auto

lemma no_leadingInteger_NaN: "\<not> leadingInteger s \<Longrightarrow> parseInt s = NaN"
proof -
  assume n: "\<not> leadingInteger s"
  define t where "t = dropWhile isWhiteSpace s"
  define u where "u = (if t \<noteq> [] \<and> (hd t = CHR ''+'' \<or> hd t = CHR ''-'') then tl t else t)"
  from n have u: "u = [] \<or> hd u \<notin> set ''0123456789''"
    unfolding leadingInteger_def Let_def t_def u_def by blast
  then have p: "take 2 u \<noteq> ''0x'' \<and> take 2 u \<noteq> ''0X''"
    by (cases u) auto
  from u have "u = [] \<or> \<not> isRadixDigit 10 (hd u)"
    using isRadixDigit_decimal by blast
  then have z: "takeWhile (isRadixDigit 10) u = []" by (rule takeWhile_hd_Nil)
  have "parseInt s = (if takeWhile (isRadixDigit 10) u = [] then NaN
      else Num ((if t \<noteq> [] \<and> hd t = CHR ''-'' then - 1 else 1) * int (radixValue 10 (takeWhile (isRadixDigit 10) u))))"
    using p unfolding parseInt_def Let_def t_def [symmetric] u_def [symmetric] by simp
  with z show ?thesis by simp
qed

lemma ceiling_tenth: "\<lceil>real_of_int T / 10\<rceil> = (T + 9) div 10"
proof -
  have "\<lceil>real_of_int T / real_of_int 10\<rceil> = - (- T div 10)"
    by (rule ceiling_divide_eq_div)
  then show ?thesis by simp
qed

lemma totalPages_div: "totalPages T = (if T > 0 then (T + 9) div 10 else 0)"
  by (simp add: totalPages_def ITEMS_PER_PAGE_def ceiling_tenth)

lemma totalPages_le_iff: "0 \<le> T \<Longrightarrow> totalPages T \<le> n \<longleftrightarrow> T \<le> 10 * n"
  by (auto simp add: totalPages_div)

lemma toString_ITEMS_PER_PAGE: "toString ITEMS_PER_PAGE = ''10''"
  by (simp add: ITEMS_PER_PAGE_def toString_def digits.simps digitChar_def)

lemma toString_0: "toString 0 = ''0''"
  by (simp add: toString_def digits.simps digitChar_def)

lemma toString_20: "toString 20 = ''20''"
  by (simp add: toString_def digits.simps digitChar_def)

lemma toString_minus_5: "toString (- 5) = ''-5''"
  by (simp add: toString_def digits.simps digitChar_def)

lemma parseInt_0: "parseInt ''0'' = Num 0"
  using parseInt_toString [of 0] by (simp add: toString_0)

lemma parseInt_10: "parseInt ''10'' = Num 10"
  using parseInt_toString [of 10]
  by (simp add: toString_ITEMS_PER_PAGE [unfolded ITEMS_PER_PAGE_def])

lemma parseInt_minus_5: "parseInt ''-5'' = Num (- 5)"
  using parseInt_toString [of "- 5"] by (simp add: toString_minus_5)

section \<open>The table\<close>

text \<open>
  C1. For every non-negative total count \<open>T\<close> (an integer a number holds exactly) and the
  page size 10, the table computes the total pages as the ceiling of \<open>T / 10\<close>: the least
  \<open>n\<close> with \<open>T \<le> 10 * n\<close>. It computes 0 when \<open>T = 0\<close>.
\<close>

theorem table_total_pages_ceiling:
  "0 \<le> organizationsCount props \<Longrightarrow> isSafeInteger (organizationsCount props) \<Longrightarrow>
     shownTotalPages (OrganizationsTable props) = \<lceil>real_of_int (organizationsCount props) / 10\<rceil>
     \<and> (\<forall>n. shownTotalPages (OrganizationsTable props) \<le> n \<longleftrightarrow> organizationsCount props \<le> 10 * n)
     \<and> (organizationsCount props = 0 \<longrightarrow> shownTotalPages (OrganizationsTable props) = 0)"
  by (simp add: OrganizationsTable_def totalPages_le_iff)
     (simp add: totalPages_def ITEMS_PER_PAGE_def)

text \<open>Twenty-five records make three pages.\<close>

theorem table_total_pages_ceiling_witness:
  "shownTotalPages
     (OrganizationsTable
        \<lparr>organizations = [], organizationsCount = 25, isLoading = False, currentPage = 1\<rparr>) = 3"
  using table_total_pages_ceiling
    [of "\<lparr>organizations = [], organizationsCount = 25, isLoading = False, currentPage = 1\<rparr>"]
  by (simp add: isSafeInteger_def MAX_SAFE_INTEGER_def ceiling_tenth)

text \<open>
  C4 as stated fails while a page-change request is in flight: on page 2 of 3, both buttons
  are disabled, though the page is neither 1 nor the total page count.
\<close>

theorem pagination_buttons_counterexample:
  "\<not> (previousDisabled
          (OrganizationsTable
             \<lparr>organizations = [acme], organizationsCount = 30, isLoading = True, currentPage = 2\<rparr>)
        = (currentPage
             \<lparr>organizations = [acme], organizationsCount = 30, isLoading = True, currentPage = 2\<rparr> = 1))
   \<and> \<not> (nextDisabled
          (OrganizationsTable
             \<lparr>organizations = [acme], organizationsCount = 30, isLoading = True, currentPage = 2\<rparr>)
        = (currentPage
             \<lparr>organizations = [acme], organizationsCount = 30, isLoading = True, currentPage = 2\<rparr>
           = shownTotalPages
               (OrganizationsTable
                  \<lparr>organizations = [acme], organizationsCount = 30, isLoading = True,
                   currentPage = 2\<rparr>)))"
  by (simp add: OrganizationsTable_def totalPages_div)

text \<open>
  C4, amended. "Previous" is disabled exactly when the current page is 1 or a page-change
  request is in flight, and "Next" exactly when the current page is the total page count or
  a request is in flight. While no request is in flight, "Previous" is disabled exactly on
  page 1 and "Next" exactly on the page whose number is the total page count.
\<close>

theorem pagination_buttons_disabled:
  "previousDisabled (OrganizationsTable props) = (currentPage props = 1 \<or> isLoading props)
   \<and> nextDisabled (OrganizationsTable props)
       = (currentPage props = shownTotalPages (OrganizationsTable props) \<or> isLoading props)
   \<and> shownTotalPages (OrganizationsTable props) = totalPages (organizationsCount props)
   \<and> (\<not> isLoading props \<longrightarrow>
        previousDisabled (OrganizationsTable props) = (currentPage props = 1)
        \<and> nextDisabled (OrganizationsTable props)
            = (currentPage props = totalPages (organizationsCount props)))"
  by (simp add: OrganizationsTable_def)

text \<open>Thirty records, nothing in flight: page 1 disables only "Previous", page 3 only "Next".\<close>

theorem pagination_buttons_disabled_witness:
  "previousDisabled
     (OrganizationsTable
        \<lparr>organizations = [acme], organizationsCount = 30, isLoading = False, currentPage = 1\<rparr>)
   \<and> \<not> nextDisabled
     (OrganizationsTable
        \<lparr>organizations = [acme], organizationsCount = 30, isLoading = False, currentPage = 1\<rparr>)
   \<and> \<not> previousDisabled
     (OrganizationsTable
        \<lparr>organizations = [acme], organizationsCount = 30, isLoading = False, currentPage = 3\<rparr>)
   \<and> nextDisabled
     (OrganizationsTable
        \<lparr>organizations = [acme], organizationsCount = 30, isLoading = False, currentPage = 3\<rparr>)"
  using pagination_buttons_disabled
    [of "\<lparr>organizations = [acme], organizationsCount = 30, isLoading = False, currentPage = 1\<rparr>"]
    pagination_buttons_disabled
    [of "\<lparr>organizations = [acme], organizationsCount = 30, isLoading = False, currentPage = 3\<rparr>"]
  by (simp add: totalPages_div)

section \<open>The page-change handler\<close>

lemma handlePageChange_submissions:
  "submissions (fetcher (handlePageChange page st)) =
     submissions (fetcher st) @
       [\<lparr>formFields = [(''limit'', ''10''), (''offset'', toString ((page - 1) * 10))],
         submitMethod = ''post'', submitAction = ''/resources/organizations''\<rparr>]"
  by (simp add: handlePageChange_def submit_def Let_def toString_ITEMS_PER_PAGE)
     (simp add: ITEMS_PER_PAGE_def)

text \<open>
  C2. For every target page number \<open>p\<close> (an integer a number holds exactly, as is the
  offset), the handler sets the displayed page to \<open>p\<close> and adds one submission: a post to
  \<open>/resources/organizations\<close> with the form fields \<open>limit\<close>, the string that reads as 10,
  and \<open>offset\<close>, the string that reads as \<open>(p - 1) * 10\<close>. Page 1 gives the offset
  \<open>0\<close> and page 3 the offset \<open>20\<close>.
\<close>

theorem page_change_submits_limit_offset:
  "isSafeInteger page \<Longrightarrow> isSafeInteger ((page - 1) * 10) \<Longrightarrow>
     submissions (fetcher (handlePageChange page st)) =
       submissions (fetcher st) @
         [\<lparr>formFields = [(''limit'', ''10''), (''offset'', toString ((page - 1) * 10))],
           submitMethod = ''post'', submitAction = ''/resources/organizations''\<rparr>]
     \<and> parseInt ''10'' = Num 10
     \<and> parseInt (toString ((page - 1) * 10)) = Num ((page - 1) * 10)
     \<and> currentPageState (handlePageChange page st) = page
     \<and> formFields (last (submissions (fetcher (handlePageChange 1 st)))) =
         [(''limit'', ''10''), (''offset'', ''0'')]
     \<and> formFields (last (submissions (fetcher (handlePageChange 3 st)))) =
         [(''limit'', ''10''), (''offset'', ''20'')]"
  by (simp add: handlePageChange_submissions parseInt_toString parseInt_10 toString_0 toString_20)
     (simp add: handlePageChange_def Let_def)

text \<open>On a freshly mounted page, asking for page 3 submits limit 10 and offset 20.\<close>

theorem page_change_submits_limit_offset_witness:
  "submissions
     (fetcher (handlePageChange 3
        (mount (LoaderSuccess (QueryOk [acme]) (QueryOk [\<lparr>total = 25\<rparr>]))))) =
     [\<lparr>formFields = [(''limit'', ''10''), (''offset'', ''20'')],
       submitMethod = ''post'', submitAction = ''/resources/organizations''\<rparr>]"
  using page_change_submits_limit_offset
    [of 3 "mount (LoaderSuccess (QueryOk [acme]) (QueryOk [\<lparr>total = 25\<rparr>]))"]
  by (simp add: isSafeInteger_def MAX_SAFE_INTEGER_def toString_20 mount_def)

section \<open>The loader and the first render\<close>

lemma loader_rejected:
  "promiseAll b (executeQuery organizationsQuery (Some [''10'', ''0'']))
       (executeCountQuery organizationsCountQuery None) = Rejected e \<Longrightarrow>
   loader b executeQuery executeCountQuery =
     \<lparr>loaded = LoaderError (case e of ErrorInstance message \<Rightarrow> message
                                     | OtherValue \<Rightarrow> ''Failed to load organizations data''),
      loaderLogged = [(''Error in organizations loader:'', e)]\<rparr>"
  by (simp add: loader_def toString_ITEMS_PER_PAGE toString_0)

lemma loader_resolved:
  "executeQuery organizationsQuery (Some [''10'', ''0'']) = Resolved qo \<Longrightarrow>
   executeCountQuery organizationsCountQuery None = Resolved qc \<Longrightarrow>
   loader b executeQuery executeCountQuery = \<lparr>loaded = LoaderSuccess qo qc, loaderLogged = []\<rparr>"
  by (simp add: loader_def promiseAll_def toString_ITEMS_PER_PAGE)

lemma promiseAll_rejects:
  "p = Rejected e1 \<or> q = Rejected e2 \<Longrightarrow>
     \<exists>e. (p = Rejected e \<or> q = Rejected e) \<and> promiseAll b p q = Rejected e"
  by (auto simp add: promiseAll_def split: outcome.split)

text \<open>
  C7. If either of the two initial queries throws, the loader returns an object with the
  single field \<open>error\<close>, which holds the message of the thrown error (or the fixed text when
  the thrown value is not an \<open>Error\<close>), and with no field \<open>organizations\<close> and no field
  \<open>organizationsCount\<close>. If both return, the loader returns the two results as
  \<open>{organizations, organizationsCount}\<close>.
\<close>

theorem loader_error_or_success:
  "(((\<exists>e. executeQuery organizationsQuery (Some [''10'', ''0'']) = Rejected e)
      \<or> (\<exists>e. executeCountQuery organizationsCountQuery None = Rejected e)) \<longrightarrow>
      (\<exists>e. (executeQuery organizationsQuery (Some [''10'', ''0'']) = Rejected e
              \<or> executeCountQuery organizationsCountQuery None = Rejected e)
            \<and> loaded (loader b executeQuery executeCountQuery) =
                LoaderError (case e of ErrorInstance message \<Rightarrow> message
                                     | OtherValue \<Rightarrow> ''Failed to load organizations data''))
      \<and> fieldNames (loaded (loader b executeQuery executeCountQuery)) = [''error'']
      \<and> \<not> hasField ''organizations'' (loaded (loader b executeQuery executeCountQuery))
      \<and> \<not> hasField ''organizationsCount'' (loaded (loader b executeQuery executeCountQuery)))
   \<and> (\<forall>qo qc. executeQuery organizationsQuery (Some [''10'', ''0'']) = Resolved qo
            \<and> executeCountQuery organizationsCountQuery None = Resolved qc \<longrightarrow>
         loaded (loader b executeQuery executeCountQuery) = LoaderSuccess qo qc
         \<and> fieldNames (loaded (loader b executeQuery executeCountQuery)) =
             [''organizations'', ''organizationsCount''])"
proof (intro conjI impI allI)
  assume "(\<exists>e. executeQuery organizationsQuery (Some [''10'', ''0'']) = Rejected e)
      \<or> (\<exists>e. executeCountQuery organizationsCountQuery None = Rejected e)"
  then obtain e1 e2 where "executeQuery organizationsQuery (Some [''10'', ''0'']) = Rejected e1
      \<or> executeCountQuery organizationsCountQuery None = Rejected e2" by blast
  from promiseAll_rejects [OF this, of b]
  obtain e where e: "executeQuery organizationsQuery (Some [''10'', ''0'']) = Rejected e
              \<or> executeCountQuery organizationsCountQuery None = Rejected e"
    and p: "promiseAll b (executeQuery organizationsQuery (Some [''10'', ''0'']))
       (executeCountQuery organizationsCountQuery None) = Rejected e" by blast
  note l = loader_rejected [of b executeQuery executeCountQuery e, OF p]
  show "\<exists>e. (executeQuery organizationsQuery (Some [''10'', ''0'']) = Rejected e
              \<or> executeCountQuery organizationsCountQuery None = Rejected e)
            \<and> loaded (loader b executeQuery executeCountQuery) =
                LoaderError (case e of ErrorInstance message \<Rightarrow> message
                                     | OtherValue \<Rightarrow> ''Failed to load organizations data'')"
    using e l by auto
  show "fieldNames (loaded (loader b executeQuery executeCountQuery)) = [''error'']"
    by (simp add: l)
  show "\<not> hasField ''organizations'' (loaded (loader b executeQuery executeCountQuery))"
    by (simp add: l hasField_def)
  show "\<not> hasField ''organizationsCount'' (loaded (loader b executeQuery executeCountQuery))"
    by (simp add: l hasField_def)
next
  fix qo qc
  assume "executeQuery organizationsQuery (Some [''10'', ''0'']) = Resolved qo
            \<and> executeCountQuery organizationsCountQuery None = Resolved qc"
  then have l: "loader b executeQuery executeCountQuery =
      \<lparr>loaded = LoaderSuccess qo qc, loaderLogged = []\<rparr>"
    by (simp add: loader_resolved)
  show "loaded (loader b executeQuery executeCountQuery) = LoaderSuccess qo qc"
    by (simp add: l)
  show "fieldNames (loaded (loader b executeQuery executeCountQuery)) =
             [''organizations'', ''organizationsCount'']"
    by (simp add: l)
qed

text \<open>
  The organizations query throws "connection refused": the loader returns that message.
  Both queries return: the loader returns both results.
\<close>

theorem loader_error_or_success_witness:
  "loaded (loader False (\<lambda>q ps. Rejected (ErrorInstance ''connection refused''))
                        (\<lambda>q ps. Resolved (QueryOk [\<lparr>total = 25\<rparr>])))
     = LoaderError ''connection refused''
   \<and> loaded (loader False (\<lambda>q ps. Resolved (QueryOk [acme]))
                          (\<lambda>q ps. Resolved (QueryOk [\<lparr>total = 25\<rparr>])))
     = LoaderSuccess (QueryOk [acme]) (QueryOk [\<lparr>total = 25\<rparr>])"
  using loader_error_or_success
      [of "\<lambda>q ps. Rejected (ErrorInstance ''connection refused'')"
          "\<lambda>q ps. Resolved (QueryOk [\<lparr>total = 25\<rparr>])" False]
    loader_error_or_success
      [of "\<lambda>q ps. Resolved (QueryOk [acme])"
          "\<lambda>q ps. Resolved (QueryOk [\<lparr>total = 25\<rparr>])" False]
  by simp

lemma firstRender_rejected:
  assumes "executeQuery organizationsQuery (Some [''10'', ''0'']) = Rejected e1
      \<or> executeCountQuery organizationsCountQuery None = Rejected e2"
  shows "\<exists>message. firstRender b executeQuery executeCountQuery = WrapperOnly (ErrorDisplay message)"
proof -
  from promiseAll_rejects [OF assms, of b]
  obtain e where "promiseAll b (executeQuery organizationsQuery (Some [''10'', ''0'']))
       (executeCountQuery organizationsCountQuery None) = Rejected e" by blast
  note l = loader_rejected [of b executeQuery executeCountQuery e, OF this]
  show ?thesis by (simp add: firstRender_def l mount_def OrganizationsPage_def)
qed

lemma firstRender_flagged:
  "executeQuery organizationsQuery (Some [''10'', ''0'']) = Resolved (QueryFailed message) \<Longrightarrow>
   executeCountQuery organizationsCountQuery None = Resolved qc \<Longrightarrow>
   firstRender b executeQuery executeCountQuery = Container ''Organizations'' (ErrorDisplay message)"
  by (simp add: firstRender_def loader_resolved mount_def OrganizationsPage_def)

lemma firstRender_rows:
  "executeQuery organizationsQuery (Some [''10'', ''0'']) = Resolved (QueryOk rows) \<Longrightarrow>
   executeCountQuery organizationsCountQuery None = Resolved qc \<Longrightarrow>
   firstRender b executeQuery executeCountQuery =
     Container ''Organizations''
       (Rendered (Some \<lparr>organizations = rows, organizationsCount = countOrZero qc,
                        isLoading = False, currentPage = 1\<rparr>))"
  by (simp add: firstRender_def loader_resolved mount_def OrganizationsPage_def)

lemma not_error_and_table: "\<not> (showsErrorMessage v \<and> showsTable v)"
  by (cases v rule: showsTable.cases) simp_all

text \<open>
  C3 as stated fails when the count query returns a result that carries the error flag
  (it does not throw) while the organizations query returns rows: the count query did not
  succeed, yet the page shows no error message. It renders the table with the rows and a
  total count of 0.
\<close>

theorem first_render_partial_counterexample:
  "\<not> ((succeeded (Resolved (QueryOk [acme]))
         \<and> succeeded (Resolved (QueryFailed ''statement timeout'' :: OrganizationCountData list QueryData))
         \<and> showsTable (firstRender False (\<lambda>q ps. Resolved (QueryOk [acme]))
                                          (\<lambda>q ps. Resolved (QueryFailed ''statement timeout''))))
        \<or> showsErrorMessage (firstRender False (\<lambda>q ps. Resolved (QueryOk [acme]))
                                                (\<lambda>q ps. Resolved (QueryFailed ''statement timeout''))))
   \<and> firstRender False (\<lambda>q ps. Resolved (QueryOk [acme]))
                       (\<lambda>q ps. Resolved (QueryFailed ''statement timeout''))
       = Container ''Organizations''
           (Rendered (Some \<lparr>organizations = [acme], organizationsCount = 0,
                            isLoading = False, currentPage = 1\<rparr>))"
  by (simp add: firstRender_rows countOrZero_def)

text \<open>
  C3, amended. For the initial load: if either query throws, the page is a single error
  message and nothing else. If neither throws and the result of the organizations query
  carries the error flag, the page shows that error below its heading and no table. If
  neither throws and the organizations query returns rows, the page renders the table with
  those rows, whatever the count query returned: a count result that carries the error flag
  counts as a total of 0 and is not reported. No state shows an error message together with
  the table.
\<close>

theorem first_render_error_or_page:
  assumes "outcome1 = executeQuery organizationsQuery (Some [''10'', ''0''])"
    and "outcome2 = executeCountQuery organizationsCountQuery None"
    and "view = firstRender countRejectsFirst executeQuery executeCountQuery"
  shows "(((\<exists>e. outcome1 = Rejected e) \<or> (\<exists>e. outcome2 = Rejected e)) \<longrightarrow>
            (\<exists>message. view = WrapperOnly (ErrorDisplay message)))
      \<and> (\<forall>message qc. outcome1 = Resolved (QueryFailed message) \<and> outcome2 = Resolved qc \<longrightarrow>
            view = Container ''Organizations'' (ErrorDisplay message))
      \<and> (\<forall>rows qc. outcome1 = Resolved (QueryOk rows) \<and> outcome2 = Resolved qc \<longrightarrow>
            view = Container ''Organizations''
                     (Rendered (Some \<lparr>organizations = rows, organizationsCount = countOrZero qc,
                                      isLoading = False, currentPage = 1\<rparr>)))
      \<and> (\<forall>message. countOrZero (QueryFailed message) = 0)
      \<and> \<not> (showsErrorMessage view \<and> showsTable view)"
proof (intro conjI impI allI)
  assume "(\<exists>e. outcome1 = Rejected e) \<or> (\<exists>e. outcome2 = Rejected e)"
  then obtain e1 e2 where "executeQuery organizationsQuery (Some [''10'', ''0'']) = Rejected e1
      \<or> executeCountQuery organizationsCountQuery None = Rejected e2"
    using assms(1,2) by metis
  then show "\<exists>message. view = WrapperOnly (ErrorDisplay message)"
    unfolding assms(3) by (rule firstRender_rejected)
next
  fix message qc
  assume "outcome1 = Resolved (QueryFailed message) \<and> outcome2 = Resolved qc"
  then show "view = Container ''Organizations'' (ErrorDisplay message)"
    using assms by (simp add: firstRender_flagged)
next
  fix rows qc
  assume "outcome1 = Resolved (QueryOk rows) \<and> outcome2 = Resolved qc"
  then show "view = Container ''Organizations''
                     (Rendered (Some \<lparr>organizations = rows, organizationsCount = countOrZero qc,
                                      isLoading = False, currentPage = 1\<rparr>))"
    using assms by (simp add: firstRender_rows)
next
  fix message
  show "countOrZero (QueryFailed message) = 0" by (simp add: countOrZero_def)
next
  show "\<not> (showsErrorMessage view \<and> showsTable view)" by (rule not_error_and_table)
qed

text \<open>
  A thrown error gives the bare message; a flagged organizations result gives the message
  below the heading; two good results give the table with 25 as the total.
\<close>

theorem first_render_error_or_page_witness:
  "firstRender False (\<lambda>q ps. Rejected (ErrorInstance ''connection refused''))
                     (\<lambda>q ps. Resolved (QueryOk [\<lparr>total = 25\<rparr>]))
     = WrapperOnly (ErrorDisplay ''connection refused'')
   \<and> firstRender False (\<lambda>q ps. Resolved (QueryFailed ''relation does not exist''))
                       (\<lambda>q ps. Resolved (QueryOk [\<lparr>total = 25\<rparr>]))
     = Container ''Organizations'' (ErrorDisplay ''relation does not exist'')
   \<and> firstRender False (\<lambda>q ps. Resolved (QueryOk [acme]))
                       (\<lambda>q ps. Resolved (QueryOk [\<lparr>total = 25\<rparr>]))
     = Container ''Organizations''
         (Rendered (Some \<lparr>organizations = [acme], organizationsCount = 25,
                          isLoading = False, currentPage = 1\<rparr>))"
  using first_render_error_or_page
      [OF refl refl refl, of "\<lambda>q ps. Resolved (QueryFailed ''relation does not exist'')"
          "\<lambda>q ps. Resolved (QueryOk [\<lparr>total = 25\<rparr>])" False]
    first_render_error_or_page
      [OF refl refl refl, of "\<lambda>q ps. Resolved (QueryOk [acme])"
          "\<lambda>q ps. Resolved (QueryOk [\<lparr>total = 25\<rparr>])" False]
    first_render_error_or_page
      [OF refl refl refl, of "\<lambda>q ps. Rejected (ErrorInstance ''connection refused'')"
          "\<lambda>q ps. Resolved (QueryOk [\<lparr>total = 25\<rparr>])" False]
  by (simp add: countOrZero_def)
     (simp add: firstRender_def loader_def promiseAll_def mount_def OrganizationsPage_def)

section \<open>Page changes\<close>

lemma step_PageChange_loaderData: "loaderData (step st (PageChange page)) = loaderData st"
  by (simp add: handlePageChange_def Let_def)

lemma step_ActionReturned_loaderData: "loaderData (step st (ActionReturned d)) = loaderData st"
  by simp

lemma run_Cons: "run st (e # es) = run (step st e) es"
  by (simp add: run_def)

lemma run_latestLoaderData: "loaderData (run st es) = latestLoaderData (loaderData st) es"
proof (induction es arbitrary: st)
  case Nil
  show ?case by (simp add: run_def)
next
  case (Cons e es)
  show ?case
    by (cases e) (simp_all add: run_Cons Cons.IH step_PageChange_loaderData del: step.simps(1))
qed

lemma latestLoaderData_no_runs: "loaderRuns es = 0 \<Longrightarrow> latestLoaderData ld es = ld"
  by (induction ld es rule: latestLoaderData.induct) simp_all

lemma WithErrorHandling_Rendered:
  assumes "WithErrorHandling q render = Rendered content"
  shows "\<exists>d. q = QueryObject (QueryOk d) \<and> content = render d"
proof (cases q)
  case (ErrorObject message)
  with assms show ?thesis by simp
next
  case (QueryObject r)
  with assms show ?thesis by (cases r) auto
qed

lemma page_count:
  "loaderData st = LoaderSuccess qo qc \<Longrightarrow>
   OrganizationsPage st = Container heading (Rendered (Some props)) \<Longrightarrow>
   organizationsCount props = countOrZero qc"
  by (auto simp add: OrganizationsPage_def dest!: WithErrorHandling_Rendered)

lemma page_after_rows:
  "loaderData st = LoaderSuccess qo qc \<Longrightarrow>
   OrganizationsPage (step st (ActionReturned (QueryObject (QueryOk rows)))) =
     Container ''Organizations''
       (Rendered (Some \<lparr>organizations = rows, organizationsCount = countOrZero qc,
                        isLoading = False, currentPage = currentPageState st\<rparr>))"
  by (simp add: OrganizationsPage_def receive_def)

text \<open>
  C8 as stated fails on the running page. The route submits each page change with the
  method post and exports no \<open>shouldRevalidate\<close>, so the loader runs again after the
  action has answered, and the page takes its total from the new result. With 25 records at
  the initial load and 35 when the loader runs again after the change to page 2, the total
  shown goes from 25 to 35.
\<close>

theorem total_recomputed_counterexample:
  "\<not> (shownCount
         (OrganizationsPage
            (run (mount (loaded (loader False (\<lambda>q ps. Resolved (QueryOk [acme]))
                                              (\<lambda>q ps. Resolved (QueryOk [\<lparr>total = 25\<rparr>])))))
               [PageChange 2,
                ActionReturned (QueryObject (QueryOk [acme\<lparr>organization_id := 11\<rparr>])),
                LoaderReturned (loaded (loader False (\<lambda>q ps. Resolved (QueryOk [acme]))
                                                     (\<lambda>q ps. Resolved (QueryOk [\<lparr>total = 35\<rparr>]))))]))
       = shownCount
           (OrganizationsPage
              (mount (loaded (loader False (\<lambda>q ps. Resolved (QueryOk [acme]))
                                           (\<lambda>q ps. Resolved (QueryOk [\<lparr>total = 25\<rparr>])))))))
   \<and> shownCount
         (OrganizationsPage
            (mount (loaded (loader False (\<lambda>q ps. Resolved (QueryOk [acme]))
                                         (\<lambda>q ps. Resolved (QueryOk [\<lparr>total = 25\<rparr>]))))))
       = Some 25
   \<and> OrganizationsPage
         (run (mount (loaded (loader False (\<lambda>q ps. Resolved (QueryOk [acme]))
                                           (\<lambda>q ps. Resolved (QueryOk [\<lparr>total = 25\<rparr>])))))
            [PageChange 2,
             ActionReturned (QueryObject (QueryOk [acme\<lparr>organization_id := 11\<rparr>])),
             LoaderReturned (loaded (loader False (\<lambda>q ps. Resolved (QueryOk [acme]))
                                                  (\<lambda>q ps. Resolved (QueryOk [\<lparr>total = 35\<rparr>]))))])
       = Container ''Organizations''
           (Rendered (Some \<lparr>organizations = [acme\<lparr>organization_id := 11\<rparr>],
                            organizationsCount = 35, isLoading = False, currentPage = 2\<rparr>))"
  by (simp add: loader_def promiseAll_def mount_def run_def handlePageChange_def Let_def
      submit_def receive_def settle_def OrganizationsPage_def countOrZero_def)

text \<open>
  C8, amended. A page change by itself does not recompute the total: neither the page-change
  handler nor the arrival of the action's response changes the loader data of the page, the
  total count of the table (and hence its total page count) is always the one in the result
  of the latest run of the loader, and a response with rows replaces the displayed rows and
  leaves the total as it is. The total is the one of the initial load as long as the loader
  has not run again; once the framework has run the loader again, as it does after a page
  change, the total is the one that run returned.
\<close>

theorem total_follows_latest_loader_run:
  "loaderData (step st (PageChange page)) = loaderData st
   \<and> loaderData (step st (ActionReturned d)) = loaderData st
   \<and> loaderData (step st (LoaderReturned ld)) = ld
   \<and> loaderData (run (mount initial) es) = latestLoaderData initial es
   \<and> (loaderRuns es = 0 \<longrightarrow> latestLoaderData initial es = initial)
   \<and> (\<forall>heading props qo qc.
         OrganizationsPage (run (mount initial) es) = Container heading (Rendered (Some props))
         \<and> latestLoaderData initial es = LoaderSuccess qo qc
         \<longrightarrow> organizationsCount props = countOrZero qc
             \<and> shownTotalPages (OrganizationsTable props) = totalPages (countOrZero qc))
   \<and> (\<forall>qo qc rows.
         loaderData st = LoaderSuccess qo qc
         \<longrightarrow> OrganizationsPage (step st (ActionReturned (QueryObject (QueryOk rows)))) =
               Container ''Organizations''
                 (Rendered (Some \<lparr>organizations = rows, organizationsCount = countOrZero qc,
                                  isLoading = False, currentPage = currentPageState st\<rparr>)))"
proof -
  have l: "loaderData (run (mount initial) es) = latestLoaderData initial es"
    by (simp add: run_latestLoaderData mount_def)
  have c: "organizationsCount props = countOrZero qc
            \<and> shownTotalPages (OrganizationsTable props) = totalPages (countOrZero qc)"
    if "OrganizationsPage (run (mount initial) es) = Container heading (Rendered (Some props))"
      and "latestLoaderData initial es = LoaderSuccess qo qc"
    for heading props qo qc
    using page_count [of "run (mount initial) es" qo qc heading props] l that
    by (simp add: OrganizationsTable_def)
  have s1: "loaderData (step st (PageChange page)) = loaderData st"
    by (rule step_PageChange_loaderData)
  have s2: "loaderData (step st (ActionReturned d)) = loaderData st"
    by (rule step_ActionReturned_loaderData)
  have s3: "loaderData (step st (LoaderReturned ld)) = ld"
    by simp
  show ?thesis
    using l c s1 s2 s3 latestLoaderData_no_runs [of es initial] page_after_rows [of st]
    by blast
qed

text \<open>
  After a change to page 2 and the response with that page's row, and before the loader
  has run again, the table shows the new row, page 2, and the total of 25 of the initial
  load.
\<close>

theorem total_follows_latest_loader_run_witness:
  "OrganizationsPage
     (run (mount (LoaderSuccess (QueryOk [acme]) (QueryOk [\<lparr>total = 25\<rparr>])))
        [PageChange 2, ActionReturned (QueryObject (QueryOk [acme\<lparr>organization_id := 11\<rparr>]))]) =
     Container ''Organizations''
       (Rendered (Some \<lparr>organizations = [acme\<lparr>organization_id := 11\<rparr>], organizationsCount = 25,
                        isLoading = False, currentPage = 2\<rparr>))
   \<and> loaderData
        (run (mount (LoaderSuccess (QueryOk [acme]) (QueryOk [\<lparr>total = 25\<rparr>])))
           [PageChange 2, ActionReturned (QueryObject (QueryOk [acme\<lparr>organization_id := 11\<rparr>]))])
       = LoaderSuccess (QueryOk [acme]) (QueryOk [\<lparr>total = 25\<rparr>])"
  using total_follows_latest_loader_run
    [of "run (mount (LoaderSuccess (QueryOk [acme]) (QueryOk [\<lparr>total = 25\<rparr>]))) [PageChange 2]"
        2 "QueryObject (QueryOk [acme\<lparr>organization_id := 11\<rparr>])"
        "LoaderSuccess (QueryOk [acme]) (QueryOk [\<lparr>total = 25\<rparr>])"
        "LoaderSuccess (QueryOk [acme]) (QueryOk [\<lparr>total = 25\<rparr>])"
        "[PageChange 2, ActionReturned (QueryObject (QueryOk [acme\<lparr>organization_id := 11\<rparr>]))]"]
  by (simp add: countOrZero_def run_def handlePageChange_def Let_def mount_def submit_def
      receive_def OrganizationsPage_def)

section \<open>The resource action\<close>

lemma action_executed:
  "requestMethod req = ''POST'' \<Longrightarrow> requestFormData req = Resolved fd \<Longrightarrow>
     executed (action executeQuery req) =
       [(organizationsQuery, Some [toString (actionLimit fd), toString (actionOffset fd)])]"
  by (simp add: action_def Let_def split: outcome.split QueryData.split)

text \<open>
  C5. For every request whose method is not POST, the action returns the status 405 with the
  body \<open>{error: "Method not allowed"}\<close>, runs no query and logs nothing.
\<close>

theorem action_rejects_other_methods:
  "requestMethod req \<noteq> ''POST'' \<Longrightarrow>
     action executeQuery req =
       \<lparr>returned = \<lparr>status = 405, body = ErrorObject ''Method not allowed''\<rparr>,
        executed = [], logged = []\<rparr>"
  by (simp add: action_def Response_json_def)

text \<open>A GET request.\<close>

theorem action_rejects_other_methods_witness:
  "action (\<lambda>q ps. Resolved (QueryOk [acme]))
       \<lparr>requestMethod = ''GET'', requestFormData = Resolved []\<rparr> =
     \<lparr>returned = \<lparr>status = 405, body = ErrorObject ''Method not allowed''\<rparr>,
      executed = [], logged = []\<rparr>"
  using action_rejects_other_methods
    [of "\<lparr>requestMethod = ''GET'', requestFormData = Resolved []\<rparr>"
        "\<lambda>q ps. Resolved (QueryOk [acme])"]
  by simp

lemma leadingInteger_null: "\<not> leadingInteger ''null''"
  by (simp add: leadingInteger_def isWhiteSpace_def)

lemma leadingInteger_File: "\<not> leadingInteger ''[object File]''"
  by (simp add: leadingInteger_def isWhiteSpace_def)

lemma fallback_cases:
  "v = None \<or> v = Some FileValue \<or> (\<exists>s. v = Some (StringValue s) \<and> \<not> leadingInteger s)
     \<Longrightarrow> \<not> leadingInteger (coerceToString v)"
  using leadingInteger_null leadingInteger_File by auto

text \<open>
  C6 as stated fails for a value that is not numeric but begins with digits: the limit
  \<open>12abc\<close> does not spell an integer, yet the action does not fall back to 10. It runs the
  query with the limit 12.
\<close>

theorem action_fallback_counterexample:
  "\<not> integerLiteral ''12abc''
   \<and> actionLimit [(''limit'', StringValue ''12abc''), (''offset'', StringValue ''abc'')] \<noteq> 10
   \<and> executed (action (\<lambda>q ps. Resolved (QueryOk [acme]))
        \<lparr>requestMethod = ''POST'',
         requestFormData =
           Resolved [(''limit'', StringValue ''12abc''), (''offset'', StringValue ''abc'')]\<rparr>)
      = [(organizationsQuery, Some [''12'', ''0''])]"
  by (simp add: integerLiteral_def action_executed actionLimit_def actionOffset_def formDataGet_def
      parseInt_def isWhiteSpace_def isRadixDigit_def digitValue_def radixValue_def
      toString_def digits.simps digitChar_def)

lemma orElse_fallback: "p = NaN \<or> p = Num 0 \<Longrightarrow> orElse p d = d"
  by auto

lemma action_ran_limit:
  "requestMethod req = ''POST'' \<Longrightarrow> requestFormData req = Resolved fd \<Longrightarrow>
     \<exists>p. executed (action executeQuery req) =
           [(organizationsQuery, Some [toString (actionLimit fd), p])]"
  by (simp add: action_executed)

lemma action_ran_offset:
  "requestMethod req = ''POST'' \<Longrightarrow> requestFormData req = Resolved fd \<Longrightarrow>
     \<exists>p. executed (action executeQuery req) =
           [(organizationsQuery, Some [p, toString (actionOffset fd)])]"
  by (simp add: action_executed)

text \<open>
  C6, amended. For every POST request whose body reads as form data: a \<open>limit\<close> from which
  \<open>parseInt\<close> reads \<open>NaN\<close> or zero falls back to 10, and such an \<open>offset\<close> falls back to 0;
  \<open>parseInt\<close> reads \<open>NaN\<close> from every value that is missing, is a file, or is a string that
  does not begin with an integer (after white space and an optional sign comes no digit). The
  request is not rejected: the action runs the query once, with the fallback as that
  parameter. A value from which \<open>parseInt\<close> reads a nonzero integer \<open>n\<close> (one a number holds
  exactly) is used as \<open>n\<close>, also when the value is not numeric.
\<close>

theorem action_fallback_on_NaN_or_zero:
  "requestMethod req = ''POST'' \<Longrightarrow> requestFormData req = Resolved fd \<Longrightarrow>
     (\<forall>name. formDataGet fd name = None \<or> formDataGet fd name = Some FileValue
          \<or> (\<exists>s. formDataGet fd name = Some (StringValue s) \<and> \<not> leadingInteger s)
        \<longrightarrow> parseInt (coerceToString (formDataGet fd name)) = NaN)
     \<and> (parseInt (coerceToString (formDataGet fd ''limit'')) = NaN
          \<or> parseInt (coerceToString (formDataGet fd ''limit'')) = Num 0
        \<longrightarrow> actionLimit fd = 10
            \<and> (\<exists>p. executed (action executeQuery req) = [(organizationsQuery, Some [''10'', p])]))
     \<and> (parseInt (coerceToString (formDataGet fd ''offset'')) = NaN
          \<or> parseInt (coerceToString (formDataGet fd ''offset'')) = Num 0
        \<longrightarrow> actionOffset fd = 0
            \<and> (\<exists>p. executed (action executeQuery req) = [(organizationsQuery, Some [p, ''0''])]))
     \<and> (\<forall>n. n \<noteq> 0 \<and> isSafeInteger n
             \<and> parseInt (coerceToString (formDataGet fd ''limit'')) = Num n
        \<longrightarrow> actionLimit fd = n)
     \<and> (\<forall>n. n \<noteq> 0 \<and> isSafeInteger n
             \<and> parseInt (coerceToString (formDataGet fd ''offset'')) = Num n
        \<longrightarrow> actionOffset fd = n)"
proof -
  assume m: "requestMethod req = ''POST''" and f: "requestFormData req = Resolved fd"
  have a: "parseInt (coerceToString (formDataGet fd name)) = NaN"
    if "formDataGet fd name = None \<or> formDataGet fd name = Some FileValue
          \<or> (\<exists>s. formDataGet fd name = Some (StringValue s) \<and> \<not> leadingInteger s)"
    for name
    using fallback_cases [OF that] by (rule no_leadingInteger_NaN)
  have b: "actionLimit fd = 10
            \<and> (\<exists>p. executed (action executeQuery req) = [(organizationsQuery, Some [''10'', p])])"
    if "parseInt (coerceToString (formDataGet fd ''limit'')) = NaN
          \<or> parseInt (coerceToString (formDataGet fd ''limit'')) = Num 0"
  proof -
    have "actionLimit fd = 10"
      unfolding actionLimit_def using that by (rule orElse_fallback)
    then show ?thesis
      using action_ran_limit [OF m f, of executeQuery]
      by (simp add: toString_ITEMS_PER_PAGE [unfolded ITEMS_PER_PAGE_def])
  qed
  have c: "actionOffset fd = 0
            \<and> (\<exists>p. executed (action executeQuery req) = [(organizationsQuery, Some [p, ''0''])])"
    if "parseInt (coerceToString (formDataGet fd ''offset'')) = NaN
          \<or> parseInt (coerceToString (formDataGet fd ''offset'')) = Num 0"
  proof -
    have "actionOffset fd = 0"
      unfolding actionOffset_def using that by (rule orElse_fallback)
    then show ?thesis
      using action_ran_offset [OF m f, of executeQuery] by (simp add: toString_0)
  qed
  have d: "actionLimit fd = n"
    if "n \<noteq> 0 \<and> isSafeInteger n \<and> parseInt (coerceToString (formDataGet fd ''limit'')) = Num n"
    for n
    using that by (simp add: actionLimit_def)
  have e: "actionOffset fd = n"
    if "n \<noteq> 0 \<and> isSafeInteger n \<and> parseInt (coerceToString (formDataGet fd ''offset'')) = Num n"
    for n
    using that by (simp add: actionOffset_def)
  show ?thesis
    using a b c d e by blast
qed

text \<open>
  The limit \<open>abc\<close> and no offset: the query runs with 10 and 0. The limit \<open>12abc\<close> is used
  as 12.
\<close>

theorem action_fallback_on_NaN_or_zero_witness:
  "executed (action (\<lambda>q ps. Resolved (QueryOk [acme]))
        \<lparr>requestMethod = ''POST'', requestFormData = Resolved [(''limit'', StringValue ''abc'')]\<rparr>)
      = [(organizationsQuery, Some [''10'', ''0''])]
   \<and> actionLimit [(''limit'', StringValue ''abc'')] = 10
   \<and> actionOffset [(''limit'', StringValue ''abc'')] = 0
   \<and> actionLimit [(''limit'', StringValue ''12abc'')] = 12"
proof -
  have p: "parseInt ''abc'' = NaN" "parseInt ''null'' = NaN" "parseInt ''12abc'' = Num 12"
    by (simp_all add: parseInt_def isWhiteSpace_def isRadixDigit_def digitValue_def radixValue_def)
  have g: "formDataGet [(''limit'', StringValue ''abc'')] ''limit'' = Some (StringValue ''abc'')"
    "formDataGet [(''limit'', StringValue ''abc'')] ''offset'' = None"
    "formDataGet [(''limit'', StringValue ''12abc'')] ''limit'' = Some (StringValue ''12abc'')"
    by (simp_all add: formDataGet_def)
  have s: "isSafeInteger 12" by (simp add: isSafeInteger_def MAX_SAFE_INTEGER_def)
  note t1 = action_fallback_on_NaN_or_zero
    [of "\<lparr>requestMethod = ''POST'', requestFormData = Resolved [(''limit'', StringValue ''abc'')]\<rparr>"
        "[(''limit'', StringValue ''abc'')]" "\<lambda>q ps. Resolved (QueryOk [acme])"]
  note t2 = action_fallback_on_NaN_or_zero
    [of "\<lparr>requestMethod = ''POST'', requestFormData = Resolved [(''limit'', StringValue ''12abc'')]\<rparr>"
        "[(''limit'', StringValue ''12abc'')]" "\<lambda>q ps. Resolved (QueryOk [acme])"]
  have a: "actionLimit [(''limit'', StringValue ''abc'')] = 10
      \<and> (\<exists>p. executed (action (\<lambda>q ps. Resolved (QueryOk [acme]))
        \<lparr>requestMethod = ''POST'', requestFormData = Resolved [(''limit'', StringValue ''abc'')]\<rparr>)
         = [(organizationsQuery, Some [''10'', p])])"
    using t1 by (simp add: g p)
  have b: "actionOffset [(''limit'', StringValue ''abc'')] = 0
      \<and> (\<exists>p. executed (action (\<lambda>q ps. Resolved (QueryOk [acme]))
        \<lparr>requestMethod = ''POST'', requestFormData = Resolved [(''limit'', StringValue ''abc'')]\<rparr>)
         = [(organizationsQuery, Some [p, ''0''])])"
    using t1 by (simp add: g p)
  have c: "actionLimit [(''limit'', StringValue ''12abc'')] = 12"
    using t2 s by (simp add: g p)
  from a b c show ?thesis by auto
qed

text \<open>
  C9. For a POST request whose \<open>limit\<close> is the string \<open>0\<close>, the action uses the limit 10
  and runs the query with the first parameter \<open>10\<close>: \<open>0\<close> parses to zero, and every value
  that parses to zero takes the fallback, as a value that does not parse does. Where the
  offset is an integer a number holds exactly, the second parameter is its decimal string.
\<close>

theorem action_limit_zero_falls_back:
  "requestMethod req = ''POST'' \<Longrightarrow> requestFormData req = Resolved fd \<Longrightarrow>
   formDataGet fd ''limit'' = Some (StringValue s) \<Longrightarrow> parseInt s = Num 0 \<Longrightarrow>
     parseInt ''0'' = Num 0
     \<and> actionLimit fd = 10
     \<and> (\<exists>p. executed (action executeQuery req) = [(organizationsQuery, Some [''10'', p])])
     \<and> (isSafeInteger (actionOffset fd) \<longrightarrow>
          executed (action executeQuery req) =
            [(organizationsQuery, Some [''10'', toString (actionOffset fd)])])"
  by (simp add: action_executed parseInt_0)
     (simp add: actionLimit_def toString_ITEMS_PER_PAGE [unfolded ITEMS_PER_PAGE_def])

text \<open>The limit \<open>0\<close> with the offset \<open>0\<close>: the query runs with 10 and 0.\<close>

theorem action_limit_zero_falls_back_witness:
  "executed (action (\<lambda>q ps. Resolved (QueryOk [acme]))
        \<lparr>requestMethod = ''POST'',
         requestFormData = Resolved [(''limit'', StringValue ''0''), (''offset'', StringValue ''0'')]\<rparr>)
      = [(organizationsQuery, Some [''10'', ''0''])]"
  using action_limit_zero_falls_back
    [of "\<lparr>requestMethod = ''POST'',
          requestFormData = Resolved [(''limit'', StringValue ''0''), (''offset'', StringValue ''0'')]\<rparr>"
        "[(''limit'', StringValue ''0''), (''offset'', StringValue ''0'')]" "''0''"
        "\<lambda>q ps. Resolved (QueryOk [acme])"]
  by (simp add: formDataGet_def parseInt_0 actionOffset_def toString_0 isSafeInteger_def
        MAX_SAFE_INTEGER_def)

text \<open>
  C10. The action checks no range: for every \<open>limit\<close> or \<open>offset\<close> form value that parses
  to a nonzero integer \<open>n\<close> (one a number holds exactly), negative ones included, the action
  uses \<open>n\<close> and passes it to the paginated query, in the place of that parameter, as the
  decimal string of \<open>n\<close>, which reads back as \<open>n\<close>. Where the other value is an integer a
  number holds exactly too, the other parameter is its decimal string.
\<close>

theorem action_forwards_nonzero_values:
  "requestMethod req = ''POST'' \<Longrightarrow> requestFormData req = Resolved fd \<Longrightarrow>
   n \<noteq> 0 \<Longrightarrow> isSafeInteger n \<Longrightarrow> parseInt s = Num n \<Longrightarrow>
     (formDataGet fd ''limit'' = Some (StringValue s) \<longrightarrow>
        actionLimit fd = n
        \<and> (\<exists>p. executed (action executeQuery req) = [(organizationsQuery, Some [toString n, p])])
        \<and> (isSafeInteger (actionOffset fd) \<longrightarrow>
             executed (action executeQuery req) =
               [(organizationsQuery, Some [toString n, toString (actionOffset fd)])]))
     \<and> (formDataGet fd ''offset'' = Some (StringValue s) \<longrightarrow>
        actionOffset fd = n
        \<and> (\<exists>p. executed (action executeQuery req) = [(organizationsQuery, Some [p, toString n])])
        \<and> (isSafeInteger (actionLimit fd) \<longrightarrow>
             executed (action executeQuery req) =
               [(organizationsQuery, Some [toString (actionLimit fd), toString n])]))
     \<and> parseInt (toString n) = Num n"
  by (simp add: action_executed parseInt_toString) (simp add: actionLimit_def actionOffset_def)

text \<open>The limit and the offset \<open>-5\<close>: the query runs with \<open>-5\<close> and \<open>-5\<close>.\<close>

theorem action_forwards_nonzero_values_witness:
  "executed (action (\<lambda>q ps. Resolved (QueryOk [acme]))
        \<lparr>requestMethod = ''POST'',
         requestFormData = Resolved [(''limit'', StringValue ''-5''), (''offset'', StringValue ''-5'')]\<rparr>)
      = [(organizationsQuery, Some [''-5'', ''-5''])]"
  using action_forwards_nonzero_values
    [of "\<lparr>requestMethod = ''POST'',
          requestFormData = Resolved [(''limit'', StringValue ''-5''), (''offset'', StringValue ''-5'')]\<rparr>"
        "[(''limit'', StringValue ''-5''), (''offset'', StringValue ''-5'')]" "- 5" "''-5''"
        "\<lambda>q ps. Resolved (QueryOk [acme])"]
  by (simp add: formDataGet_def parseInt_minus_5 toString_minus_5 isSafeInteger_def
        MAX_SAFE_INTEGER_def actionLimit_def actionOffset_def)

end
